theory Spec2Isabelle
  imports Complex_Main "HOL-Library.Word"
begin

section \<open>The shared header \<^verbatim>\<open>Sources/Renderer/ShaderTypes.h\<close>\<close>

text \<open>
  The header declares five structs and nothing else: no function, no constant, no
  assertion. Each struct is embedded as the list of its member declarations, in the
  order of the source, every member written as the source writes it: the type first,
  then the name.

  The member types are \<^verbatim>\<open>float\<close> and three types of the platform header
  \<^verbatim>\<open><simd/simd.h>\<close>, which the header includes:
  \<^item> \<^verbatim>\<open>simd_float2\<close>, a 2-lane vector of \<^verbatim>\<open>float\<close>: 8 bytes, aligned to 8;
  \<^item> \<^verbatim>\<open>simd_float3\<close>, a 3-lane vector of \<^verbatim>\<open>float\<close>: the platform header pads it
    to the size and alignment of the 4-lane vector, so it takes 16 bytes, aligned to
    16, of which the last 4 hold no lane;
  \<^item> \<^verbatim>\<open>simd_float4x4\<close>, four columns of 4-lane vectors: 64 bytes, aligned to 16.
\<close>

datatype ctype = c_float | simd_float2 | simd_float3 | simd_float4x4

type_synonym field = "ctype \<times> string"

type_synonym struct = "field list"

definition SceneVertex :: struct where
  "SceneVertex =
    [(simd_float3, ''position''),
     (simd_float3, ''normal''),
     (simd_float2, ''texCoord'')]"

definition SceneUniforms :: struct where
  "SceneUniforms =
    [(simd_float4x4, ''modelMatrix''),
     (simd_float4x4, ''viewMatrix''),
     (simd_float4x4, ''projectionMatrix''),
     (simd_float4x4, ''normalMatrix''),
     (simd_float3, ''lightPosition''),
     (c_float, ''ambientIntensity''),
     (simd_float3, ''lightColor''),
     (c_float, ''diffuseIntensity''),
     (simd_float3, ''cameraPosition''),
     (c_float, ''specularIntensity''),
     (c_float, ''specularPower''),
     (c_float, ''padding1''),
     (c_float, ''padding2''),
     (c_float, ''padding3'')]"

definition CRTUniforms :: struct where
  "CRTUniforms =
    [(c_float, ''time''),
     (c_float, ''curvature''),
     (c_float, ''scanlineIntensity''),
     (c_float, ''scanlineCount''),
     (c_float, ''glowIntensity''),
     (c_float, ''vignetteStrength''),
     (c_float, ''flickerAmount''),
     (c_float, ''brightness''),
     (simd_float2, ''resolution''),
     (c_float, ''greenTintR''),
     (c_float, ''greenTintG''),
     (c_float, ''greenTintB''),
     (c_float, ''phosphorPersistence''),
     (c_float, ''noiseAmount''),
     (c_float, ''padding'')]"

definition QuadVertex :: struct where
  "QuadVertex =
    [(simd_float2, ''position''),
     (simd_float2, ''texCoord'')]"

definition MaterialUniforms :: struct where
  "MaterialUniforms =
    [(simd_float3, ''baseColor''),
     (c_float, ''roughness''),
     (c_float, ''metallic''),
     (c_float, ''padding1''),
     (c_float, ''padding2''),
     (c_float, ''padding3'')]"

text \<open>The whole header: the structs by name, in the order of their declaration.\<close>

definition ShaderTypes_h :: "(string \<times> struct) list" where
  "ShaderTypes_h =
    [(''SceneVertex'', SceneVertex),
     (''SceneUniforms'', SceneUniforms),
     (''CRTUniforms'', CRTUniforms),
     (''QuadVertex'', QuadVertex),
     (''MaterialUniforms'', MaterialUniforms)]"

subsection \<open>Reading the declarations\<close>

definition field_names :: "struct \<Rightarrow> string list" where
  "field_names fs = map snd fs"

definition field_types :: "struct \<Rightarrow> ctype list" where
  "field_types fs = map fst fs"

definition ends_with :: "string \<Rightarrow> string \<Rightarrow> bool" where
  "ends_with suffix s = (drop (length s - length suffix) s = suffix)"

text \<open>
  The header has two families of structs, told apart by the last word of the name:
  the vertex formats (\<^verbatim>\<open>...Vertex\<close>) and the uniform records (\<^verbatim>\<open>...Uniforms\<close>).
\<close>

definition vertex_formats :: "(string \<times> struct) list" where
  "vertex_formats = filter (\<lambda>(name, fs). ends_with ''Vertex'' name) ShaderTypes_h"

definition uniform_records :: "(string \<times> struct) list" where
  "uniform_records = filter (\<lambda>(name, fs). ends_with ''Uniforms'' name) ShaderTypes_h"

text \<open>A padding member is one whose name starts with the word \<^verbatim>\<open>padding\<close>.\<close>

definition is_padding :: "field \<Rightarrow> bool" where
  "is_padding f = (take 7 (snd f) = ''padding'')"

definition semantic_fields :: "struct \<Rightarrow> struct" where
  "semantic_fields fs = filter (\<lambda>f. \<not> is_padding f) fs"

definition padding_fields :: "struct \<Rightarrow> struct" where
  "padding_fields fs = filter is_padding fs"

subsection \<open>Sizes, alignments and offsets\<close>

text \<open>The number of \<^verbatim>\<open>float\<close> lanes a member carries.\<close>

fun components :: "ctype \<Rightarrow> nat" where
  "components c_float = 1"
| "components simd_float2 = 2"
| "components simd_float3 = 3"
| "components simd_float4x4 = 16"

text \<open>
  The size and the alignment of a member type, in bytes, as the platform header and the
  platform's C compiler fix them. A 3-lane vector has the size of four lanes; counting
  four bytes for each lane, as \<open>payload_bytes\<close> below does, gives the bytes that hold
  data, not the bytes the member takes.
\<close>

fun sizeof_t :: "ctype \<Rightarrow> nat" where
  "sizeof_t c_float = 4"
| "sizeof_t simd_float2 = 8"
| "sizeof_t simd_float3 = 16"
| "sizeof_t simd_float4x4 = 64"

fun alignof_t :: "ctype \<Rightarrow> nat" where
  "alignof_t c_float = 4"
| "alignof_t simd_float2 = 8"
| "alignof_t simd_float3 = 16"
| "alignof_t simd_float4x4 = 16"

text \<open>
  The layout of a C struct: every member stands at the first offset at or after the end
  of the member before it that is a multiple of its own alignment; the struct is aligned
  as its most aligned member, and its size is the end of the last member rounded up to
  that alignment.
\<close>

definition align_up :: "nat \<Rightarrow> nat \<Rightarrow> nat" where
  "align_up a n = ((n + a - 1) div a) * a"

fun offsets_from :: "nat \<Rightarrow> struct \<Rightarrow> nat list" where
  "offsets_from off [] = []"
| "offsets_from off ((t, n) # fs) =
     align_up (alignof_t t) off # offsets_from (align_up (alignof_t t) off + sizeof_t t) fs"

fun end_from :: "nat \<Rightarrow> struct \<Rightarrow> nat" where
  "end_from off [] = off"
| "end_from off ((t, n) # fs) = end_from (align_up (alignof_t t) off + sizeof_t t) fs"

definition alignof_struct :: "struct \<Rightarrow> nat" where
  "alignof_struct fs = fold max (map alignof_t (field_types fs)) 1"

definition sizeof_struct :: "struct \<Rightarrow> nat" where
  "sizeof_struct fs = align_up (alignof_struct fs) (end_from 0 fs)"

definition laid_out :: "struct \<Rightarrow> (field \<times> nat) list" where
  "laid_out fs = zip fs (offsets_from 0 fs)"

definition offsetof :: "struct \<Rightarrow> string \<Rightarrow> nat option" where
  "offsetof fs name = map_of (zip (field_names fs) (offsets_from 0 fs)) name"

text \<open>The bytes that hold a lane: four for every \<^verbatim>\<open>float\<close> of every member.\<close>

definition payload_bytes :: "struct \<Rightarrow> nat" where
  "payload_bytes fs = 4 * sum_list (map components (field_types fs))"

text \<open>
  For every 3-lane vector member that is not the last one: its name and offset, and the
  name and offset of the member declared right after it.
\<close>

fun next_after_float3 :: "(field \<times> nat) list \<Rightarrow> (string \<times> nat \<times> string \<times> nat) list" where
  "next_after_float3 (((t, n), off) # ((t', n'), off') # rest) =
     (if t = simd_float3 then [(n, off, n', off')] else [])
       @ next_after_float3 (((t', n'), off') # rest)"
| "next_after_float3 _ = []"

text \<open>The same walk over the bare declarations: every 3-lane vector with its successor.\<close>

fun after_float3 :: "struct \<Rightarrow> (field \<times> field) list" where
  "after_float3 ((t, n) # f # fs) =
     (if t = simd_float3 then [((t, n), f)] else []) @ after_float3 (f # fs)"
| "after_float3 _ = []"

subsection \<open>The data model's attribute lists\<close>

text \<open>
  The order in which the specification's data model lists the attributes of CRTUniforms,
  written with the member names; "green-tint RGB" stands for the three members
  \<^verbatim>\<open>greenTintR\<close>, \<^verbatim>\<open>greenTintG\<close>, \<^verbatim>\<open>greenTintB\<close>. This list follows the
  specification's words, to be compared with the declaration above.
\<close>

definition crt_data_model_attributes :: "string list" where
  "crt_data_model_attributes =
    [''time'', ''curvature'', ''scanlineIntensity'', ''scanlineCount'', ''glowIntensity'',
     ''vignetteStrength'', ''flickerAmount'', ''brightness'', ''resolution'',
     ''greenTintR'', ''greenTintG'', ''greenTintB'', ''phosphorPersistence'',
     ''noiseAmount'']"

text \<open>
  The same for SceneUniforms: "model/view/projection/normal 4x4 matrices, light
  position/color, ambient/diffuse/specular intensities, specular power, camera position".
\<close>

definition scene_data_model_attributes :: "string list" where
  "scene_data_model_attributes =
    [''modelMatrix'', ''viewMatrix'', ''projectionMatrix'', ''normalMatrix'',
     ''lightPosition'', ''lightColor'',
     ''ambientIntensity'', ''diffuseIntensity'', ''specularIntensity'',
     ''specularPower'', ''cameraPosition'']"

text \<open>The same for MaterialUniforms: "baseColor, roughness, metallic".\<close>

definition material_data_model_attributes :: "string list" where
  "material_data_model_attributes = [''baseColor'', ''roughness'', ''metallic'']"

section \<open>The bytes of a record\<close>

unbundle bit_operations_syntax

text \<open>
  A \<^verbatim>\<open>float\<close> is kept as its 32-bit pattern: the layout moves the bits and never
  computes with them. A value of a struct is the list of its members' values, each the
  list of the member's lanes.
\<close>

type_synonym float32 = "32 word"

type_synonym byte = "8 word"

text \<open>
  Modelled from the spec: the header has no code that writes a record to bytes or reads
  it back; the host code that hands the records to the GPU is not among the sources. The
  specification speaks of "serializing then deserializing any uniform record through the
  fixed byte layout". \<open>float_bytes\<close> are the four bytes of one lane, lowest first.
\<close>

definition float_bytes :: "float32 \<Rightarrow> byte list" where
  "float_bytes w =
     [ucast w, ucast (drop_bit 8 w), ucast (drop_bit 16 w), ucast (drop_bit 24 w)]"

text \<open>Modelled from the spec: the lane read back from its bytes, lowest first.\<close>

fun bytes_float :: "byte list \<Rightarrow> float32" where
  "bytes_float [] = 0"
| "bytes_float (b # bs) = ucast b OR push_bit 8 (bytes_float bs)"

text \<open>
  Modelled from the spec: the bytes of one member, its lanes in order, then zero bytes
  up to the size of its type (the unused fourth lane of a 3-lane vector).
\<close>

definition encode_field :: "ctype \<Rightarrow> float32 list \<Rightarrow> byte list" where
  "encode_field t v = concat (map float_bytes v) @ replicate (sizeof_t t - 4 * length v) 0"

text \<open>Modelled from the spec: \<open>k\<close> lanes read from the front of a byte sequence.\<close>

fun read_floats :: "nat \<Rightarrow> byte list \<Rightarrow> float32 list" where
  "read_floats 0 bs = []"
| "read_floats (Suc k) bs = bytes_float (take 4 bs) # read_floats k (drop 4 bs)"

text \<open>
  Modelled from the spec: "serializing ... through the fixed byte layout". The members
  are written in the order of the declaration, each at the offset \<open>offsets_from\<close> gives
  it, with zero bytes in the gaps; \<open>off\<close> is the number of bytes already written. The
  record is then filled with zero bytes up to its size.
\<close>

fun serialize_from :: "nat \<Rightarrow> struct \<Rightarrow> float32 list list \<Rightarrow> byte list" where
  "serialize_from off ((t, n) # fs) (v # vs) =
     replicate (align_up (alignof_t t) off - off) 0 @ encode_field t v
       @ serialize_from (align_up (alignof_t t) off + sizeof_t t) fs vs"
| "serialize_from off _ _ = []"

text \<open>Modelled from the spec: the whole record as \<open>sizeof_struct\<close> bytes.\<close>

definition serialize :: "struct \<Rightarrow> float32 list list \<Rightarrow> byte list" where
  "serialize fs vs = serialize_from 0 fs vs @ replicate (sizeof_struct fs - end_from 0 fs) 0"

text \<open>
  Modelled from the spec: "deserializing": every member is read at its offset, as the
  GPU-side program does, which "reads the same bytes by offset".
\<close>

fun deserialize_from :: "nat \<Rightarrow> struct \<Rightarrow> byte list \<Rightarrow> float32 list list" where
  "deserialize_from off [] bs = []"
| "deserialize_from off ((t, n) # fs) bs =
     read_floats (components t) (drop (align_up (alignof_t t) off) bs)
       # deserialize_from (align_up (alignof_t t) off + sizeof_t t) fs bs"

text \<open>Modelled from the spec: the whole record read back from its bytes.\<close>

definition deserialize :: "struct \<Rightarrow> byte list \<Rightarrow> float32 list list" where
  "deserialize fs bs = deserialize_from 0 fs bs"

text \<open>
  An assignment of values to the members of a struct: one value for each member, with as
  many lanes as the member's type has.
\<close>

definition has_shape :: "struct \<Rightarrow> float32 list list \<Rightarrow> bool" where
  "has_shape fs vs = (map length vs = map components (field_types fs))"

text \<open>
  A value of MaterialUniforms: baseColor (1.0, 0.5, 0.25), roughness 0.5, metallic 0 and
  the three padding members 0, as IEEE-754 bit patterns.
\<close>

definition example_material :: "float32 list list" where
  "example_material = [[0x3F800000, 0x3F000000, 0x3E800000], [0x3F000000], [0], [0], [0], [0]]"

section \<open>The CRT post-process pass\<close>

text \<open>
  The values of a CRTUniforms record, member by member in the order of the struct. The
  numbers are real numbers here: the rounding of \<^verbatim>\<open>float\<close> arithmetic is left out.
\<close>

type_synonym vec2 = "real \<times> real"

type_synonym rgb = "real \<times> real \<times> real"

type_synonym texture = "vec2 \<Rightarrow> rgb"

record crt_uniforms =
  time :: real
  curvature :: real
  scanlineIntensity :: real
  scanlineCount :: real
  glowIntensity :: real
  vignetteStrength :: real
  flickerAmount :: real
  brightness :: real
  resolution :: vec2
  greenTintR :: real
  greenTintG :: real
  greenTintB :: real
  phosphorPersistence :: real
  noiseAmount :: real
  padding :: real

text \<open>
  Modelled from the spec: the invariants of the data model on a CRTUniforms record,
  "scanlineCount > 0", "phosphorPersistence in [0,1]", "curvature >= 0". No code of the
  sources checks them.
\<close>

definition valid_crt :: "crt_uniforms \<Rightarrow> bool" where
  "valid_crt u = (0 < scanlineCount u \<and> 0 \<le> phosphorPersistence u
     \<and> phosphorPersistence u \<le> 1 \<and> 0 \<le> curvature u)"

text \<open>
  Modelled from the spec: the GPU program of the CRT pass is not among the sources, and
  the specification leaves the exact curves open ("exact curve shapes ... are an
  implementation choice"). They are parameters of the model:
  \<^item> \<open>bulge c r2\<close>: the radial factor of the barrel distortion for curvature \<open>c\<close> at
    squared radius \<open>r2\<close>;
  \<^item> \<open>scanline_wave\<close>: the periodic darkening between scanlines, of period 1;
  \<^item> \<open>glow_source\<close>: the blurred bright regions of the scene around a coordinate;
  \<^item> \<open>vignette_falloff\<close>: the darkening at a distance from the centre;
  \<^item> \<open>flicker_wave\<close>: the flicker at a time;
  \<^item> \<open>noise_hash\<close>: the noise at a pixel coordinate and a time.
\<close>

record crt_shapes =
  bulge :: "real \<Rightarrow> real \<Rightarrow> real"
  scanline_wave :: "real \<Rightarrow> real"
  glow_source :: "texture \<Rightarrow> vec2 \<Rightarrow> rgb"
  vignette_falloff :: "real \<Rightarrow> real"
  flicker_wave :: "real \<Rightarrow> real"
  noise_hash :: "vec2 \<Rightarrow> real \<Rightarrow> real"

text \<open>Modelled from the spec: a colour multiplied by a factor, channel by channel.\<close>

definition scale_rgb :: "real \<Rightarrow> rgb \<Rightarrow> rgb" where
  "scale_rgb k c = (case c of (r, g, b) \<Rightarrow> (k * r, k * g, k * b))"

text \<open>Modelled from the spec: the sum of two colours, channel by channel.\<close>

definition add_rgb :: "rgb \<Rightarrow> rgb \<Rightarrow> rgb" where
  "add_rgb c c' =
     (case c of (r, g, b) \<Rightarrow> case c' of (r', g', b') \<Rightarrow> (r + r', g + g', b + b'))"

text \<open>Modelled from the spec: a blend of two colours with the weight \<open>w\<close> toward the second.\<close>

definition mix_rgb :: "rgb \<Rightarrow> rgb \<Rightarrow> real \<Rightarrow> rgb" where
  "mix_rgb c c' w = add_rgb (scale_rgb (1 - w) c) (scale_rgb w c')"

text \<open>Modelled from the spec: "clamped to the valid color range", the interval from 0 to 1.\<close>

definition clamp01 :: "real \<Rightarrow> real" where
  "clamp01 x = max 0 (min 1 x)"

text \<open>Modelled from the spec: the clamp of every channel.\<close>

definition clamp_rgb :: "rgb \<Rightarrow> rgb" where
  "clamp_rgb c = (case c of (r, g, b) \<Rightarrow> (clamp01 r, clamp01 g, clamp01 b))"

text \<open>Modelled from the spec: "pure black".\<close>

definition black :: rgb where
  "black = (0, 0, 0)"

text \<open>
  Modelled from the spec: stage 1, "remap the normalized screen coordinate through a
  radial function parameterized by curvature (radius-squared-based outward bulge)". The
  screen is the unit square, its centre (1/2, 1/2); the offset from the centre is
  multiplied by the radial factor.
\<close>

definition barrelDistort :: "crt_shapes \<Rightarrow> real \<Rightarrow> vec2 \<Rightarrow> vec2" where
  "barrelDistort sh c uv =
     (let dx = fst uv - 1 / 2; dy = snd uv - 1 / 2; k = bulge sh c (dx * dx + dy * dy)
      in (1 / 2 + dx * k, 1 / 2 + dy * k))"

text \<open>Modelled from the spec: a coordinate inside "[0,1] x [0,1]".\<close>

definition onScreen :: "vec2 \<Rightarrow> bool" where
  "onScreen p = (0 \<le> fst p \<and> fst p \<le> 1 \<and> 0 \<le> snd p \<and> snd p \<le> 1)"

text \<open>
  Modelled from the spec: stage 3, "multiply sample brightness by a periodic function of
  the vertical coordinate with period 1/scanlineCount, amplitude controlled by
  scanlineIntensity (0 = no visible lines, 1 = maximum darkening between lines)".
\<close>

definition scanlines :: "crt_shapes \<Rightarrow> crt_uniforms \<Rightarrow> vec2 \<Rightarrow> rgb \<Rightarrow> rgb" where
  "scanlines sh u p c =
     scale_rgb (1 - scanlineIntensity u * scanline_wave sh (snd p * scanlineCount u)) c"

text \<open>
  Modelled from the spec: stage 4, "blend the scanline-modulated sample with the
  co-located sample from the previous frame's output using phosphorPersistence as the
  blend weight toward the previous frame"; and "if the previous-frame buffer does not yet
  exist (first frame), persistence blending uses the current-frame sample as its own
  previous value".
\<close>

definition persistence :: "crt_uniforms \<Rightarrow> texture option \<Rightarrow> vec2 \<Rightarrow> rgb \<Rightarrow> rgb" where
  "persistence u prev uv c =
     mix_rgb c (case prev of None \<Rightarrow> c | Some t \<Rightarrow> t uv) (phosphorPersistence u)"

text \<open>
  Modelled from the spec: stage 5, "add a blurred/widened version of the bright regions
  of the sample, scaled by glowIntensity".
\<close>

definition glow :: "crt_shapes \<Rightarrow> crt_uniforms \<Rightarrow> texture \<Rightarrow> vec2 \<Rightarrow> rgb \<Rightarrow> rgb" where
  "glow sh u scene p c = add_rgb c (scale_rgb (glowIntensity u) (glow_source sh scene p))"

text \<open>
  Modelled from the spec: stage 6, "multiply the RGB channels by (greenTintR, greenTintG,
  greenTintB)".
\<close>

definition tint :: "crt_uniforms \<Rightarrow> rgb \<Rightarrow> rgb" where
  "tint u c =
     (case c of (r, g, b) \<Rightarrow> (r * greenTintR u, g * greenTintG u, b * greenTintB u))"

text \<open>
  Modelled from the spec: stage 7, "darken toward the edges as a function of distance
  from center, scaled by vignetteStrength".
\<close>

definition vignette :: "crt_shapes \<Rightarrow> crt_uniforms \<Rightarrow> vec2 \<Rightarrow> rgb \<Rightarrow> rgb" where
  "vignette sh u p c =
     scale_rgb (1 - vignetteStrength u
        * vignette_falloff sh (sqrt ((fst p - 1 / 2)\<^sup>2 + (snd p - 1 / 2)\<^sup>2))) c"

text \<open>
  Modelled from the spec: stage 8, "modulate overall brightness by a time-varying ...
  function of time, scaled by flickerAmount".
\<close>

definition flicker :: "crt_shapes \<Rightarrow> crt_uniforms \<Rightarrow> rgb \<Rightarrow> rgb" where
  "flicker sh u c = scale_rgb (1 + flickerAmount u * flicker_wave sh (time u)) c"

text \<open>
  Modelled from the spec: stage 9, "add a pseudo-random per-pixel perturbation scaled by
  noiseAmount", "a deterministic function of (pixel coordinate, time)". The pixel
  coordinate is the screen coordinate times the resolution.
\<close>

definition noise :: "crt_shapes \<Rightarrow> crt_uniforms \<Rightarrow> vec2 \<Rightarrow> rgb \<Rightarrow> rgb" where
  "noise sh u uv c =
     (let n = noiseAmount u
          * noise_hash sh (fst uv * fst (resolution u), snd uv * snd (resolution u)) (time u)
      in add_rgb c (n, n, n))"

text \<open>
  Modelled from the spec: the colour of one output pixel at the screen coordinate \<open>uv\<close>,
  the stages 1 to 10 in the order of the specification. \<open>scene\<close> is the current scene
  texture as its bilinear sampler (stage 2), \<open>prev\<close> the previous output, absent on the
  first frame. Stage 10 is the "final multiply by brightness"; "output is clamped to the
  valid color range after all stages"; "off-screen (post-distortion out-of-bounds) pixels
  are forced to pure black regardless of other stage outputs".
\<close>

definition crtPixel ::
  "crt_shapes \<Rightarrow> crt_uniforms \<Rightarrow> texture \<Rightarrow> texture option \<Rightarrow> vec2 \<Rightarrow> rgb" where
  "crtPixel sh u scene prev uv =
     (let p = barrelDistort sh (curvature u) uv in
      if onScreen p then
        clamp_rgb (scale_rgb (brightness u)
          (noise sh u uv (flicker sh u (vignette sh u p (tint u
            (glow sh u scene p (persistence u prev uv (scanlines sh u p (scene p)))))))))
      else black)"

subsection \<open>One concrete pass\<close>

text \<open>
  One choice of the open curves, to run the model on: the bulge \<open>1 + c * r2\<close>, a square
  scanline wave, the scene itself as the glow source, a linear vignette, and a flicker
  and a noise that are constantly 1.
\<close>

definition example_shapes :: crt_shapes where
  "example_shapes =
     \<lparr>bulge = (\<lambda>c r2. 1 + c * r2),
      scanline_wave = (\<lambda>y. if \<lfloor>2 * y\<rfloor> mod 2 = 0 then 0 else 1),
      glow_source = (\<lambda>scene p. scene p),
      vignette_falloff = (\<lambda>d. d),
      flicker_wave = (\<lambda>t. 1),
      noise_hash = (\<lambda>p t. 1)\<rparr>"

text \<open>
  A valid CRTUniforms record with every effect but the tint and the brightness switched
  off, for an 800 by 600 target with 300 scanlines.
\<close>

definition example_uniforms :: crt_uniforms where
  "example_uniforms =
     \<lparr>time = 0, curvature = 0, scanlineIntensity = 0, scanlineCount = 300,
      glowIntensity = 0, vignetteStrength = 0, flickerAmount = 0, brightness = 1,
      resolution = (800, 600), greenTintR = 1 / 10, greenTintG = 1, greenTintB = 1 / 10,
      phosphorPersistence = 0, noiseAmount = 0, padding = 0\<rparr>"

definition white_scene :: texture where
  "white_scene = (\<lambda>p. (1, 1, 1))"

definition black_scene :: texture where
  "black_scene = (\<lambda>p. (0, 0, 0))"

section \<open>Facts about the declarations\<close>

lemma uniform_records_eq:
  "uniform_records =
    [(''SceneUniforms'', SceneUniforms),
     (''CRTUniforms'', CRTUniforms),
     (''MaterialUniforms'', MaterialUniforms)]"
  by (simp add: uniform_records_def ShaderTypes_h_def ends_with_def)

lemma vertex_formats_eq:
  "vertex_formats = [(''SceneVertex'', SceneVertex), (''QuadVertex'', QuadVertex)]"
  by (simp add: vertex_formats_def ShaderTypes_h_def ends_with_def)

lemma offsets_SceneVertex: "offsets_from 0 SceneVertex = [0, 16, 32]"
  by (simp add: SceneVertex_def align_up_def)

lemma offsets_QuadVertex: "offsets_from 0 QuadVertex = [0, 8]"
  by (simp add: QuadVertex_def align_up_def)

lemma offsets_SceneUniforms:
  "offsets_from 0 SceneUniforms =
     [0, 64, 128, 192, 256, 272, 288, 304, 320, 336, 340, 344, 348, 352]"
  by (simp add: SceneUniforms_def align_up_def)

lemma offsets_CRTUniforms:
  "offsets_from 0 CRTUniforms = [0, 4, 8, 12, 16, 20, 24, 28, 32, 40, 44, 48, 52, 56, 60]"
  by (simp add: CRTUniforms_def align_up_def)

lemma offsets_MaterialUniforms:
  "offsets_from 0 MaterialUniforms = [0, 16, 20, 24, 28, 32]"
  by (simp add: MaterialUniforms_def align_up_def)

lemma sizeof_SceneVertex: "sizeof_struct SceneVertex = 48"
  by (simp add: sizeof_struct_def alignof_struct_def field_types_def SceneVertex_def
      align_up_def)

lemma sizeof_QuadVertex: "sizeof_struct QuadVertex = 16"
  by (simp add: sizeof_struct_def alignof_struct_def field_types_def QuadVertex_def
      align_up_def)

lemma sizeof_SceneUniforms: "sizeof_struct SceneUniforms = 368"
  by (simp add: sizeof_struct_def alignof_struct_def field_types_def SceneUniforms_def
      align_up_def)

lemma sizeof_CRTUniforms: "sizeof_struct CRTUniforms = 64"
  by (simp add: sizeof_struct_def alignof_struct_def field_types_def CRTUniforms_def
      align_up_def)

lemma sizeof_MaterialUniforms: "sizeof_struct MaterialUniforms = 48"
  by (simp add: sizeof_struct_def alignof_struct_def field_types_def MaterialUniforms_def
      align_up_def)

lemma semantic_SceneUniforms:
  "semantic_fields SceneUniforms = take 11 SceneUniforms"
  by (simp add: semantic_fields_def is_padding_def SceneUniforms_def)

lemma semantic_CRTUniforms:
  "semantic_fields CRTUniforms = butlast CRTUniforms"
  by (simp add: semantic_fields_def is_padding_def CRTUniforms_def)

lemma semantic_MaterialUniforms:
  "semantic_fields MaterialUniforms = take 3 MaterialUniforms"
  by (simp add: semantic_fields_def is_padding_def MaterialUniforms_def)

lemma padding_SceneUniforms:
  "padding_fields SceneUniforms =
     [(c_float, ''padding1''), (c_float, ''padding2''), (c_float, ''padding3'')]"
  by (simp add: padding_fields_def is_padding_def SceneUniforms_def)

lemma padding_CRTUniforms:
  "padding_fields CRTUniforms = [(c_float, ''padding'')]"
  by (simp add: padding_fields_def is_padding_def CRTUniforms_def)

lemma padding_MaterialUniforms:
  "padding_fields MaterialUniforms =
     [(c_float, ''padding1''), (c_float, ''padding2''), (c_float, ''padding3'')]"
  by (simp add: padding_fields_def is_padding_def MaterialUniforms_def)

section \<open>The vertex formats\<close>

text \<open>
  C1, as the specification states it: SceneVertex is position (3 floats), normal
  (3 floats) and texCoord (2 floats) and occupies 32 bytes in total. The struct of the
  header does not: each of its two 3-lane vectors takes 16 bytes, so the struct takes 48.
\<close>

theorem SceneVertex_is_not_32_bytes:
  "sizeof_struct SceneVertex \<noteq> 32"
  by (simp add: sizeof_SceneVertex)

text \<open>
  C1, amended: the header declares exactly two vertex formats, SceneVertex and
  QuadVertex. SceneVertex is position (3 floats), normal (3 floats) and texCoord
  (2 floats): 8 floats, that is 32 bytes of lanes, which stand at the offsets 0, 16 and 32
  of a struct of 48 bytes, because every 3-lane vector is padded to 16 bytes.
  QuadVertex is position (2 floats) and texCoord (2 floats), at the offsets 0 and 8 of a
  struct of 16 bytes, with no padding.
\<close>

theorem vertex_formats_layout:
  "map fst vertex_formats = [''SceneVertex'', ''QuadVertex'']
   \<and> field_names SceneVertex = [''position'', ''normal'', ''texCoord'']
   \<and> map components (field_types SceneVertex) = [3, 3, 2]
   \<and> payload_bytes SceneVertex = 32
   \<and> offsets_from 0 SceneVertex = [0, 16, 32]
   \<and> sizeof_struct SceneVertex = 48
   \<and> field_names QuadVertex = [''position'', ''texCoord'']
   \<and> map components (field_types QuadVertex) = [2, 2]
   \<and> payload_bytes QuadVertex = 16
   \<and> offsets_from 0 QuadVertex = [0, 8]
   \<and> sizeof_struct QuadVertex = 16"
proof (intro conjI)
  show "map fst vertex_formats = [''SceneVertex'', ''QuadVertex'']"
    by (simp add: vertex_formats_eq)
  show "field_names SceneVertex = [''position'', ''normal'', ''texCoord'']"
    by (simp add: field_names_def SceneVertex_def)
  show "map components (field_types SceneVertex) = [3, 3, 2]"
    by (simp add: field_types_def SceneVertex_def)
  show "payload_bytes SceneVertex = 32"
    by (simp add: payload_bytes_def field_types_def SceneVertex_def)
  show "offsets_from 0 SceneVertex = [0, 16, 32]"
    by (rule offsets_SceneVertex)
  show "sizeof_struct SceneVertex = 48"
    by (rule sizeof_SceneVertex)
  show "field_names QuadVertex = [''position'', ''texCoord'']"
    by (simp add: field_names_def QuadVertex_def)
  show "map components (field_types QuadVertex) = [2, 2]"
    by (simp add: field_types_def QuadVertex_def)
  show "payload_bytes QuadVertex = 16"
    by (simp add: payload_bytes_def field_types_def QuadVertex_def)
  show "offsets_from 0 QuadVertex = [0, 8]"
    by (rule offsets_QuadVertex)
  show "sizeof_struct QuadVertex = 16"
    by (rule sizeof_QuadVertex)
qed

section \<open>The padding members of the uniform records\<close>

text \<open>
  C2, as the specification states it, fails on the header in two places. It gives every
  uniform record the three members padding1, padding2 and padding3 after its last
  semantic member: CRTUniforms is a uniform record of the header and has no member of
  any of these names. And it says of these members of SceneUniforms and MaterialUniforms
  that they exist solely so that the byte layout satisfies the 16-byte rule: the layout
  satisfies it without them, the semantic members alone giving structs of 352 and 32
  bytes, and with them the last member ends at the bytes 356 and 36, which are no
  multiples of 16; the sizes 368 and 48 come from rounding up to the alignment of the
  struct, as 352 and 32 do.
\<close>

theorem padding123_neither_in_every_record_nor_needed:
  "(''CRTUniforms'', CRTUniforms) \<in> set uniform_records
   \<and> ''padding1'' \<notin> set (field_names CRTUniforms)
   \<and> ''padding2'' \<notin> set (field_names CRTUniforms)
   \<and> ''padding3'' \<notin> set (field_names CRTUniforms)
   \<and> sizeof_struct (semantic_fields SceneUniforms) = 352
   \<and> sizeof_struct (semantic_fields SceneUniforms) mod 16 = 0
   \<and> sizeof_struct (semantic_fields MaterialUniforms) = 32
   \<and> sizeof_struct (semantic_fields MaterialUniforms) mod 16 = 0
   \<and> end_from 0 SceneUniforms = 356
   \<and> end_from 0 SceneUniforms mod 16 = 4
   \<and> end_from 0 MaterialUniforms = 36
   \<and> end_from 0 MaterialUniforms mod 16 = 4
   \<and> sizeof_struct SceneUniforms = 368
   \<and> sizeof_struct MaterialUniforms = 48"
proof -
  have names: "(''CRTUniforms'', CRTUniforms) \<in> set uniform_records
     \<and> ''padding1'' \<notin> set (field_names CRTUniforms)
     \<and> ''padding2'' \<notin> set (field_names CRTUniforms)
     \<and> ''padding3'' \<notin> set (field_names CRTUniforms)"
    by (simp add: uniform_records_eq field_names_def CRTUniforms_def)
  have scene: "sizeof_struct (semantic_fields SceneUniforms) = 352"
    by (simp add: semantic_SceneUniforms)
      (simp add: sizeof_struct_def alignof_struct_def field_types_def SceneUniforms_def
        align_up_def)
  have material: "sizeof_struct (semantic_fields MaterialUniforms) = 32"
    by (simp add: semantic_MaterialUniforms)
      (simp add: sizeof_struct_def alignof_struct_def field_types_def MaterialUniforms_def
        align_up_def)
  have end_scene: "end_from 0 SceneUniforms = 356"
    by (simp add: SceneUniforms_def align_up_def)
  have end_material: "end_from 0 MaterialUniforms = 36"
    by (simp add: MaterialUniforms_def align_up_def)
  show ?thesis
    using names
    by (simp add: scene material end_scene end_material sizeof_SceneUniforms
        sizeof_MaterialUniforms)
qed

text \<open>
  C2, amended: SceneUniforms and MaterialUniforms both end with the three
  \<^verbatim>\<open>float\<close> members padding1, padding2, padding3, in this order, and CRTUniforms ends
  with the single \<^verbatim>\<open>float\<close> member padding. These members carry no semantic
  value: the other members of each record are exactly the attributes the data model
  lists. In each of the three uniform records the padding members are present in the
  byte layout after every semantic member: the first of them stands at the byte where
  the last semantic member ends, the others four bytes apart behind it. Nothing is
  said here about what the members are for.
\<close>

theorem uniform_records_end_with_padding:
  "SceneUniforms = semantic_fields SceneUniforms
      @ [(c_float, ''padding1''), (c_float, ''padding2''), (c_float, ''padding3'')]
   \<and> MaterialUniforms = semantic_fields MaterialUniforms
      @ [(c_float, ''padding1''), (c_float, ''padding2''), (c_float, ''padding3'')]
   \<and> CRTUniforms = semantic_fields CRTUniforms @ [(c_float, ''padding'')]
   \<and> list_all (\<lambda>(name, fs). fs = semantic_fields fs @ padding_fields fs
                    \<and> padding_fields fs \<noteq> []) uniform_records
   \<and> end_from 0 (semantic_fields SceneUniforms) = 344
   \<and> map (offsetof SceneUniforms) [''padding1'', ''padding2'', ''padding3'']
       = [Some 344, Some 348, Some 352]
   \<and> end_from 0 (semantic_fields MaterialUniforms) = 24
   \<and> map (offsetof MaterialUniforms) [''padding1'', ''padding2'', ''padding3'']
       = [Some 24, Some 28, Some 32]
   \<and> end_from 0 (semantic_fields CRTUniforms) = 60
   \<and> offsetof CRTUniforms ''padding'' = Some 60
   \<and> set (field_names (semantic_fields SceneUniforms)) = set scene_data_model_attributes
   \<and> field_names (semantic_fields MaterialUniforms) = material_data_model_attributes
   \<and> field_names (semantic_fields CRTUniforms) = crt_data_model_attributes"
proof (intro conjI)
  show scene: "SceneUniforms = semantic_fields SceneUniforms
      @ [(c_float, ''padding1''), (c_float, ''padding2''), (c_float, ''padding3'')]"
    by (simp add: semantic_SceneUniforms) (simp add: SceneUniforms_def)
  show material: "MaterialUniforms = semantic_fields MaterialUniforms
      @ [(c_float, ''padding1''), (c_float, ''padding2''), (c_float, ''padding3'')]"
    by (simp add: semantic_MaterialUniforms) (simp add: MaterialUniforms_def)
  show crt: "CRTUniforms = semantic_fields CRTUniforms @ [(c_float, ''padding'')]"
    by (simp add: semantic_CRTUniforms) (simp add: CRTUniforms_def)
  show "list_all (\<lambda>(name, fs). fs = semantic_fields fs @ padding_fields fs
                    \<and> padding_fields fs \<noteq> []) uniform_records"
    using scene material crt
    by (simp add: uniform_records_eq padding_SceneUniforms padding_CRTUniforms
        padding_MaterialUniforms)
  show "end_from 0 (semantic_fields SceneUniforms) = 344"
    by (simp add: semantic_SceneUniforms) (simp add: SceneUniforms_def align_up_def)
  show "map (offsetof SceneUniforms) [''padding1'', ''padding2'', ''padding3'']
       = [Some 344, Some 348, Some 352]"
    by (simp add: offsetof_def offsets_SceneUniforms) (simp add: field_names_def SceneUniforms_def)
  show "end_from 0 (semantic_fields MaterialUniforms) = 24"
    by (simp add: semantic_MaterialUniforms) (simp add: MaterialUniforms_def align_up_def)
  show "map (offsetof MaterialUniforms) [''padding1'', ''padding2'', ''padding3'']
       = [Some 24, Some 28, Some 32]"
    by (simp add: offsetof_def offsets_MaterialUniforms)
      (simp add: field_names_def MaterialUniforms_def)
  show "end_from 0 (semantic_fields CRTUniforms) = 60"
    by (simp add: semantic_CRTUniforms) (simp add: CRTUniforms_def align_up_def)
  show "offsetof CRTUniforms ''padding'' = Some 60"
    by (simp add: offsetof_def offsets_CRTUniforms) (simp add: field_names_def CRTUniforms_def)
  have "field_names (semantic_fields SceneUniforms)
     = [''modelMatrix'', ''viewMatrix'', ''projectionMatrix'', ''normalMatrix'',
        ''lightPosition'', ''ambientIntensity'', ''lightColor'', ''diffuseIntensity'',
        ''cameraPosition'', ''specularIntensity'', ''specularPower'']"
    by (simp add: semantic_SceneUniforms) (simp add: field_names_def SceneUniforms_def)
  then show "set (field_names (semantic_fields SceneUniforms))
      = set scene_data_model_attributes"
    by (simp add: scene_data_model_attributes_def insert_commute)
  show "field_names (semantic_fields MaterialUniforms) = material_data_model_attributes"
    by (simp add: semantic_MaterialUniforms)
      (simp add: field_names_def MaterialUniforms_def material_data_model_attributes_def)
  show "field_names (semantic_fields CRTUniforms) = crt_data_model_attributes"
    by (simp add: semantic_CRTUniforms)
      (simp add: field_names_def CRTUniforms_def crt_data_model_attributes_def)
qed

text \<open>
  A remark on these members. Counting four bytes for every lane, the members of
  SceneUniforms, CRTUniforms and MaterialUniforms hold 320, 64 and 32 bytes, multiples of
  16, and without the padding members 308, 60 and 20 bytes, which are not. In the layout
  of the structs, where a 3-lane vector takes 16 bytes and the size is rounded up to the
  alignment, the semantic members alone already give sizes that are multiples of 16:
  352, 64 and 32 bytes. There the padding members lengthen SceneUniforms from 352 to 368
  bytes and MaterialUniforms from 32 to 48 bytes, and CRTUniforms is 64 bytes with or
  without its padding member.
\<close>

lemma sizes_with_and_without_padding:
  "map (\<lambda>(name, fs). (payload_bytes fs, payload_bytes (semantic_fields fs))) uniform_records
     = [(320, 308), (64, 60), (32, 20)]
   \<and> map (\<lambda>(name, fs). (sizeof_struct fs, sizeof_struct (semantic_fields fs))) uniform_records
     = [(368, 352), (64, 64), (48, 32)]"
proof (intro conjI)
  have p: "payload_bytes SceneUniforms = 320" "payload_bytes CRTUniforms = 64"
    "payload_bytes MaterialUniforms = 32"
    by (simp_all add: payload_bytes_def field_types_def SceneUniforms_def CRTUniforms_def
        MaterialUniforms_def)
  have q: "payload_bytes (semantic_fields SceneUniforms) = 308"
    "payload_bytes (semantic_fields CRTUniforms) = 60"
    "payload_bytes (semantic_fields MaterialUniforms) = 20"
    by (simp_all add: semantic_SceneUniforms semantic_CRTUniforms semantic_MaterialUniforms)
      (simp_all add: payload_bytes_def field_types_def SceneUniforms_def CRTUniforms_def
        MaterialUniforms_def)
  show "map (\<lambda>(name, fs). (payload_bytes fs, payload_bytes (semantic_fields fs)))
      uniform_records = [(320, 308), (64, 60), (32, 20)]"
    by (simp add: uniform_records_eq p q)
  have r: "sizeof_struct (semantic_fields SceneUniforms) = 352"
    "sizeof_struct (semantic_fields CRTUniforms) = 64"
    "sizeof_struct (semantic_fields MaterialUniforms) = 32"
    by (simp_all add: semantic_SceneUniforms semantic_CRTUniforms semantic_MaterialUniforms)
      (simp_all add: sizeof_struct_def alignof_struct_def field_types_def SceneUniforms_def
        CRTUniforms_def MaterialUniforms_def align_up_def)
  show "map (\<lambda>(name, fs). (sizeof_struct fs, sizeof_struct (semantic_fields fs)))
      uniform_records = [(368, 352), (64, 64), (48, 32)]"
    by (simp add: uniform_records_eq r sizeof_SceneUniforms sizeof_CRTUniforms
        sizeof_MaterialUniforms)
qed

section \<open>The order of the members of CRTUniforms\<close>

text \<open>
  C3: CRTUniforms holds the per-frame CRT effect parameters in exactly the order in which
  the data model lists them (time, curvature, scanlineIntensity, scanlineCount,
  glowIntensity, vignetteStrength, flickerAmount, brightness, resolution, the three
  green-tint components, phosphorPersistence, noiseAmount), and each parameter stands at
  a byte offset of its own, the offsets growing in that same order, so a reader by
  offset finds every parameter at its place.
\<close>

theorem CRTUniforms_follows_data_model:
  "field_names (semantic_fields CRTUniforms) = crt_data_model_attributes
   \<and> field_names CRTUniforms = crt_data_model_attributes @ [''padding'']
   \<and> map (offsetof CRTUniforms) crt_data_model_attributes
       = map Some [0, 4, 8, 12, 16, 20, 24, 28, 32, 40, 44, 48, 52, 56]
   \<and> sorted_wrt (<) (offsets_from 0 CRTUniforms)"
proof (intro conjI)
  show "field_names (semantic_fields CRTUniforms) = crt_data_model_attributes"
    by (simp add: semantic_CRTUniforms)
      (simp add: field_names_def CRTUniforms_def crt_data_model_attributes_def)
  show "field_names CRTUniforms = crt_data_model_attributes @ [''padding'']"
    by (simp add: field_names_def CRTUniforms_def crt_data_model_attributes_def)
  show "map (offsetof CRTUniforms) crt_data_model_attributes
       = map Some [0, 4, 8, 12, 16, 20, 24, 28, 32, 40, 44, 48, 52, 56]"
    by (simp add: crt_data_model_attributes_def offsetof_def offsets_CRTUniforms)
      (simp add: field_names_def CRTUniforms_def)
  show "sorted_wrt (<) (offsets_from 0 CRTUniforms)"
    by (simp add: offsets_CRTUniforms)
qed

section \<open>What follows a 3-component vector\<close>

text \<open>
  C4: in every uniform record of the header, each 3-component vector member is followed
  by padding, so that the member declared after it begins at a byte offset that is a
  multiple of 16. Here the padding is implicit: the vector's three lanes take 12 bytes
  and the next member starts 16 bytes after the vector does. The theorem lists, for each
  uniform record, every 3-component vector with its offset and its successor with its
  offset, and no 3-component vector is the last member of its record.
\<close>

theorem float3_successor_on_16_byte_boundary:
  "next_after_float3 (laid_out SceneUniforms)
     = [(''lightPosition'', 256, ''ambientIntensity'', 272),
        (''lightColor'', 288, ''diffuseIntensity'', 304),
        (''cameraPosition'', 320, ''specularIntensity'', 336)]
   \<and> next_after_float3 (laid_out CRTUniforms) = []
   \<and> next_after_float3 (laid_out MaterialUniforms) = [(''baseColor'', 0, ''roughness'', 16)]
   \<and> list_all (\<lambda>(n, off, n', off'). off' mod 16 = 0 \<and> off + 4 * components simd_float3 < off')
        (concat (map (\<lambda>(name, fs). next_after_float3 (laid_out fs)) uniform_records))
   \<and> list_all (\<lambda>(name, fs). length (filter (\<lambda>t. t = simd_float3) (field_types fs))
                               = length (next_after_float3 (laid_out fs))) uniform_records"
proof -
  have scene: "next_after_float3 (laid_out SceneUniforms)
     = [(''lightPosition'', 256, ''ambientIntensity'', 272),
        (''lightColor'', 288, ''diffuseIntensity'', 304),
        (''cameraPosition'', 320, ''specularIntensity'', 336)]"
    by (simp add: laid_out_def offsets_SceneUniforms) (simp add: SceneUniforms_def)
  have crt: "next_after_float3 (laid_out CRTUniforms) = []"
    by (simp add: laid_out_def offsets_CRTUniforms) (simp add: CRTUniforms_def)
  have material: "next_after_float3 (laid_out MaterialUniforms)
     = [(''baseColor'', 0, ''roughness'', 16)]"
    by (simp add: laid_out_def offsets_MaterialUniforms) (simp add: MaterialUniforms_def)
  have aligned: "list_all (\<lambda>(n, off, n', off'). off' mod 16 = 0 \<and> off + 4 * components simd_float3 < off')
        (concat (map (\<lambda>(name, fs). next_after_float3 (laid_out fs)) uniform_records))"
    by (simp add: uniform_records_eq scene crt material)
  have n_scene: "length (filter (\<lambda>t. t = simd_float3) (field_types SceneUniforms)) = 3"
    by (simp add: field_types_def SceneUniforms_def)
  have n_crt: "length (filter (\<lambda>t. t = simd_float3) (field_types CRTUniforms)) = 0"
    by (simp add: field_types_def CRTUniforms_def)
  have n_material: "length (filter (\<lambda>t. t = simd_float3) (field_types MaterialUniforms)) = 1"
    by (simp add: field_types_def MaterialUniforms_def)
  have none_last: "list_all (\<lambda>(name, fs). length (filter (\<lambda>t. t = simd_float3) (field_types fs))
                               = length (next_after_float3 (laid_out fs))) uniform_records"
    by (simp add: uniform_records_eq scene crt material n_scene n_crt n_material)
  from scene crt material aligned none_last show ?thesis
    by (intro conjI)
qed

section \<open>The trailing member of CRTUniforms\<close>

text \<open>
  C9: CRTUniforms ends with one explicit member named padding, a \<^verbatim>\<open>float\<close>, which
  is not among the parameters the data model lists. With it the record is 64 bytes, a
  multiple of 16; the semantic members alone end at byte 60 and hold 60 bytes of data.
\<close>

theorem CRTUniforms_trailing_padding:
  "last CRTUniforms = (c_float, ''padding'')
   \<and> padding_fields CRTUniforms = [(c_float, ''padding'')]
   \<and> ''padding'' \<notin> set crt_data_model_attributes
   \<and> sizeof_struct CRTUniforms = 64
   \<and> sizeof_struct CRTUniforms mod 16 = 0
   \<and> offsetof CRTUniforms ''padding'' = Some 60
   \<and> end_from 0 (semantic_fields CRTUniforms) = 60
   \<and> payload_bytes (semantic_fields CRTUniforms) = 60"
proof (intro conjI)
  show "last CRTUniforms = (c_float, ''padding'')"
    by (simp add: CRTUniforms_def)
  show "padding_fields CRTUniforms = [(c_float, ''padding'')]"
    by (rule padding_CRTUniforms)
  show "''padding'' \<notin> set crt_data_model_attributes"
    by (simp add: crt_data_model_attributes_def)
  show "sizeof_struct CRTUniforms = 64"
    by (rule sizeof_CRTUniforms)
  show "sizeof_struct CRTUniforms mod 16 = 0"
    by (simp add: sizeof_CRTUniforms)
  show "offsetof CRTUniforms ''padding'' = Some 60"
    by (simp add: offsetof_def offsets_CRTUniforms) (simp add: field_names_def CRTUniforms_def)
  show "end_from 0 (semantic_fields CRTUniforms) = 60"
    by (simp add: semantic_CRTUniforms) (simp add: CRTUniforms_def align_up_def)
  show "payload_bytes (semantic_fields CRTUniforms) = 60"
    by (simp add: semantic_CRTUniforms)
      (simp add: payload_bytes_def field_types_def CRTUniforms_def)
qed

section \<open>Vectors and scalars interleaved in SceneUniforms\<close>

text \<open>
  C10: in SceneUniforms each 3-component vector member is immediately followed by one
  scalar intensity member: lightPosition by ambientIntensity, lightColor by
  diffuseIntensity, cameraPosition by specularIntensity (after which comes
  specularPower). The declaration therefore has the same attributes as the data model's
  list but not in the order of that list, which groups the light position and colour,
  then the three intensities, and puts the camera position last.
\<close>

theorem SceneUniforms_interleaves_vectors_and_scalars:
  "after_float3 SceneUniforms
     = [((simd_float3, ''lightPosition''), (c_float, ''ambientIntensity'')),
        ((simd_float3, ''lightColor''), (c_float, ''diffuseIntensity'')),
        ((simd_float3, ''cameraPosition''), (c_float, ''specularIntensity''))]
   \<and> take 7 (drop 4 SceneUniforms)
     = [(simd_float3, ''lightPosition''), (c_float, ''ambientIntensity''),
        (simd_float3, ''lightColor''), (c_float, ''diffuseIntensity''),
        (simd_float3, ''cameraPosition''), (c_float, ''specularIntensity''),
        (c_float, ''specularPower'')]
   \<and> filter (\<lambda>f. fst f = simd_float3) SceneUniforms
     = [(simd_float3, ''lightPosition''), (simd_float3, ''lightColor''),
        (simd_float3, ''cameraPosition'')]
   \<and> field_names (semantic_fields SceneUniforms) \<noteq> scene_data_model_attributes
   \<and> set (field_names (semantic_fields SceneUniforms)) = set scene_data_model_attributes"
proof (intro conjI)
  show "after_float3 SceneUniforms
     = [((simd_float3, ''lightPosition''), (c_float, ''ambientIntensity'')),
        ((simd_float3, ''lightColor''), (c_float, ''diffuseIntensity'')),
        ((simd_float3, ''cameraPosition''), (c_float, ''specularIntensity''))]"
    by (simp add: SceneUniforms_def)
  show "take 7 (drop 4 SceneUniforms)
     = [(simd_float3, ''lightPosition''), (c_float, ''ambientIntensity''),
        (simd_float3, ''lightColor''), (c_float, ''diffuseIntensity''),
        (simd_float3, ''cameraPosition''), (c_float, ''specularIntensity''),
        (c_float, ''specularPower'')]"
    by (simp add: SceneUniforms_def)
  show "filter (\<lambda>f. fst f = simd_float3) SceneUniforms
     = [(simd_float3, ''lightPosition''), (simd_float3, ''lightColor''),
        (simd_float3, ''cameraPosition'')]"
    by (simp add: SceneUniforms_def)
  have names: "field_names (semantic_fields SceneUniforms)
     = [''modelMatrix'', ''viewMatrix'', ''projectionMatrix'', ''normalMatrix'',
        ''lightPosition'', ''ambientIntensity'', ''lightColor'', ''diffuseIntensity'',
        ''cameraPosition'', ''specularIntensity'', ''specularPower'']"
    by (simp add: semantic_SceneUniforms) (simp add: field_names_def SceneUniforms_def)
  show "field_names (semantic_fields SceneUniforms) \<noteq> scene_data_model_attributes"
    by (simp add: names scene_data_model_attributes_def)
  show "set (field_names (semantic_fields SceneUniforms)) = set scene_data_model_attributes"
    unfolding names scene_data_model_attributes_def
    by (simp add: insert_commute)
qed

section \<open>Round trip through the byte layout\<close>

lemma bytes_float_float_bytes: "bytes_float (float_bytes w) = w"
  unfolding float_bytes_def
  apply simp
  apply (rule bit_word_eqI)
  apply (auto simp add: bit_simps)
  subgoal for n by (cases "24 \<le> n") simp_all
  done

lemma read_floats_concat:
  "read_floats (length v) (concat (map float_bytes v) @ xs) = v"
proof (induction v)
  case Nil
  then show ?case by simp
next
  case (Cons w v)
  have four: "length (float_bytes w) = 4"
    by (simp add: float_bytes_def)
  show ?case
    using Cons four by (simp add: bytes_float_float_bytes)
qed

lemma align_up_ge: "0 < a \<Longrightarrow> n \<le> align_up a n"
proof -
  assume a: "0 < a"
  have "n + a - 1 = (n + a - 1) div a * a + (n + a - 1) mod a"
    by simp
  moreover have "(n + a - 1) mod a < a"
    using a by simp
  ultimately show ?thesis
    unfolding align_up_def by linarith
qed

lemma alignof_t_pos: "0 < alignof_t t"
  by (cases t) simp_all

lemma payload_le_size: "4 * components t \<le> sizeof_t t"
  by (cases t) simp_all

lemma alignof_struct_pos: "0 < alignof_struct fs"
proof -
  have "\<And>m. 0 < m \<Longrightarrow> 0 < fold max xs (m::nat)" for xs
    by (induction xs) (auto simp: max_def)
  then show ?thesis
    by (simp add: alignof_struct_def)
qed

lemma length_encode_field:
  "length v = components t \<Longrightarrow> length (encode_field t v) = sizeof_t t"
  using payload_le_size [of t]
  by (simp add: encode_field_def length_concat comp_def float_bytes_def sum_list_triv)

lemma read_encode_field:
  "length v = components t \<Longrightarrow> read_floats (components t) (encode_field t v @ xs) = v"
  using read_floats_concat [of v] by (simp add: encode_field_def)

text \<open>
  The members written from offset \<open>off\<close> on, behind any \<open>off\<close> bytes and before any
  further bytes, are read back as they were written.
\<close>

lemma roundtrip_from:
  "has_shape fs vs \<Longrightarrow> length pre = off \<Longrightarrow>
   deserialize_from off fs (pre @ serialize_from off fs vs @ post) = vs"
proof (induction fs arbitrary: vs pre off)
  case Nil
  then show ?case
    by (simp add: has_shape_def field_types_def)
next
  case (Cons f fs)
  obtain t n where f: "f = (t, n)"
    by (cases f)
  from Cons.prems(1) obtain v vs' where vs: "vs = v # vs'"
    and lv: "length v = components t" and sh: "has_shape fs vs'"
    by (cases vs) (auto simp: has_shape_def field_types_def f)
  let ?o = "align_up (alignof_t t) off"
  let ?pre = "pre @ replicate (?o - off) 0 @ encode_field t v"
  have ge: "off \<le> ?o"
    by (rule align_up_ge [OF alignof_t_pos])
  have lpre: "length ?pre = ?o + sizeof_t t"
    using ge Cons.prems(2) by (simp add: length_encode_field [OF lv])
  have l0: "length (pre @ replicate (?o - off) 0) = ?o"
    using ge Cons.prems(2) by simp
  have bytes: "pre @ serialize_from off (f # fs) vs @ post
      = (pre @ replicate (?o - off) 0) @ encode_field t v
          @ (serialize_from (?o + sizeof_t t) fs vs' @ post)"
    by (simp add: f vs)
  have here: "read_floats (components t)
      (drop ?o (pre @ serialize_from off (f # fs) vs @ post)) = v"
    unfolding bytes using l0 read_encode_field [OF lv] by (simp del: append_assoc)
  have rest: "deserialize_from (?o + sizeof_t t) fs
      (pre @ serialize_from off (f # fs) vs @ post) = vs'"
    using Cons.IH [OF sh lpre] by (simp add: f vs)
  show ?case
    using here rest by (simp add: f vs)
qed

lemma length_serialize_from:
  "has_shape fs vs \<Longrightarrow> off + length (serialize_from off fs vs) = end_from off fs"
proof (induction fs arbitrary: vs off)
  case Nil
  then show ?case by simp
next
  case (Cons f fs)
  obtain t n where f: "f = (t, n)"
    by (cases f)
  from Cons.prems(1) obtain v vs' where vs: "vs = v # vs'"
    and lv: "length v = components t" and sh: "has_shape fs vs'"
    by (cases vs) (auto simp: has_shape_def field_types_def f)
  have ge: "off \<le> align_up (alignof_t t) off"
    by (rule align_up_ge [OF alignof_t_pos])
  show ?case
    using Cons.IH [OF sh, of "align_up (alignof_t t) off + sizeof_t t"] ge
    by (simp add: f vs length_encode_field [OF lv])
qed

lemma roundtrip: "has_shape fs vs \<Longrightarrow> deserialize fs (serialize fs vs) = vs"
  using roundtrip_from [of fs vs "[]" 0] by (simp add: deserialize_def serialize_def)

lemma length_serialize: "has_shape fs vs \<Longrightarrow> length (serialize fs vs) = sizeof_struct fs"
  using length_serialize_from [of fs vs 0]
    align_up_ge [OF alignof_struct_pos, of "end_from 0 fs" fs]
  by (simp add: serialize_def sizeof_struct_def)

text \<open>
  The bytes of the example value of MaterialUniforms: baseColor in the bytes 0 to 11,
  four unused bytes, roughness at byte 16, metallic at byte 20, the padding members at
  the bytes 24, 28 and 32, and twelve unused bytes up to the size of 48.
\<close>

lemma example_material_bytes:
  "serialize MaterialUniforms example_material =
    [0, 0, 0x80, 0x3F, 0, 0, 0, 0x3F, 0, 0, 0x80, 0x3E, 0, 0, 0, 0,
     0, 0, 0, 0x3F, 0, 0, 0, 0, 0, 0, 0, 0, 0, 0, 0, 0,
     0, 0, 0, 0, 0, 0, 0, 0, 0, 0, 0, 0, 0, 0, 0, 0]"
  by code_simp

text \<open>
  C5: for each of the three uniform records (SceneUniforms, CRTUniforms,
  MaterialUniforms) and every assignment of values to its members, writing the record
  into its byte layout, which takes exactly the size of the struct, and reading the
  bytes back gives the values that were written: the bytes of padding and alignment
  change no member.
\<close>

theorem uniform_record_roundtrip:
  assumes "(name, fs) \<in> set uniform_records" and "has_shape fs vs"
  shows "deserialize fs (serialize fs vs) = vs
    \<and> length (serialize fs vs) = sizeof_struct fs"
proof
  show "deserialize fs (serialize fs vs) = vs"
    using assms(2) by (rule roundtrip)
  show "length (serialize fs vs) = sizeof_struct fs"
    using assms(2) by (rule length_serialize)
qed

theorem uniform_record_roundtrip_witness:
  "(''MaterialUniforms'', MaterialUniforms) \<in> set uniform_records
   \<and> has_shape MaterialUniforms example_material
   \<and> deserialize MaterialUniforms (serialize MaterialUniforms example_material)
       = example_material
   \<and> length (serialize MaterialUniforms example_material) = 48
   \<and> serialize MaterialUniforms example_material =
      [0, 0, 0x80, 0x3F, 0, 0, 0, 0x3F, 0, 0, 0x80, 0x3E, 0, 0, 0, 0,
       0, 0, 0, 0x3F, 0, 0, 0, 0, 0, 0, 0, 0, 0, 0, 0, 0,
       0, 0, 0, 0, 0, 0, 0, 0, 0, 0, 0, 0, 0, 0, 0, 0]"
proof -
  have member: "(''MaterialUniforms'', MaterialUniforms) \<in> set uniform_records"
    by (simp add: uniform_records_eq)
  have shape: "has_shape MaterialUniforms example_material"
    by (simp add: has_shape_def field_types_def MaterialUniforms_def example_material_def)
  from uniform_record_roundtrip [OF member shape] member shape show ?thesis
    by (simp only: sizeof_MaterialUniforms example_material_bytes simp_thms)
qed

section \<open>Properties of the CRT pass\<close>

lemma no_distortion:
  assumes "\<And>r. bulge sh 0 r = 1"
  shows "barrelDistort sh 0 uv = uv"
  using assms by (simp add: barrelDistort_def)

lemma mix_same: "mix_rgb c c w = c"
  by (cases c) (simp add: mix_rgb_def add_rgb_def scale_rgb_def algebra_simps)

lemma mix_zero: "mix_rgb c c' 0 = c"
  by (cases c; cases c') (simp add: mix_rgb_def add_rgb_def scale_rgb_def)

lemma scale_one: "scale_rgb 1 c = c"
  by (cases c) (simp add: scale_rgb_def)

lemma add_zero_scaled: "add_rgb c (scale_rgb 0 c') = c"
  by (cases c; cases c') (simp add: add_rgb_def scale_rgb_def)

lemma add_zero: "add_rgb c (0, 0, 0) = c"
  by (cases c) (simp add: add_rgb_def)

lemma persistence_off:
  "phosphorPersistence u = 0 \<or> prev = None \<Longrightarrow> persistence u prev uv c = c"
  by (auto simp: persistence_def mix_same mix_zero)

text \<open>
  C6, as the specification states it: with curvature, vignetteStrength,
  scanlineIntensity, glowIntensity, noiseAmount and flickerAmount all 0, the output is
  the input scene with only the tint and the brightness applied. Two valid records show
  that it is not. With phosphorPersistence 1/2, a white scene over a black previous
  output gives half the tinted colour at the centre pixel. With brightness 2 and no
  persistence, the white scene gives (1/5, 1, 1/5), the clamp of the tinted and scaled
  colour (1/5, 2, 1/5).
\<close>

theorem effects_off_is_not_tint_and_brightness:
  "valid_crt (example_uniforms\<lparr>phosphorPersistence := 1 / 2\<rparr>)
   \<and> crtPixel example_shapes (example_uniforms\<lparr>phosphorPersistence := 1 / 2\<rparr>)
        white_scene (Some black_scene) (1 / 2, 1 / 2) = (1 / 20, 1 / 2, 1 / 20)
   \<and> scale_rgb (brightness (example_uniforms\<lparr>phosphorPersistence := 1 / 2\<rparr>))
        (tint (example_uniforms\<lparr>phosphorPersistence := 1 / 2\<rparr>) (white_scene (1 / 2, 1 / 2)))
       = (1 / 10, 1, 1 / 10)
   \<and> crtPixel example_shapes (example_uniforms\<lparr>phosphorPersistence := 1 / 2\<rparr>)
        white_scene (Some black_scene) (1 / 2, 1 / 2)
       \<noteq> scale_rgb (brightness (example_uniforms\<lparr>phosphorPersistence := 1 / 2\<rparr>))
        (tint (example_uniforms\<lparr>phosphorPersistence := 1 / 2\<rparr>) (white_scene (1 / 2, 1 / 2)))
   \<and> valid_crt (example_uniforms\<lparr>brightness := 2\<rparr>)
   \<and> crtPixel example_shapes (example_uniforms\<lparr>brightness := 2\<rparr>)
        white_scene None (1 / 2, 1 / 2) = (1 / 5, 1, 1 / 5)
   \<and> scale_rgb (brightness (example_uniforms\<lparr>brightness := 2\<rparr>))
        (tint (example_uniforms\<lparr>brightness := 2\<rparr>) (white_scene (1 / 2, 1 / 2)))
       = (1 / 5, 2, 1 / 5)
   \<and> crtPixel example_shapes (example_uniforms\<lparr>brightness := 2\<rparr>)
        white_scene None (1 / 2, 1 / 2)
       \<noteq> scale_rgb (brightness (example_uniforms\<lparr>brightness := 2\<rparr>))
        (tint (example_uniforms\<lparr>brightness := 2\<rparr>) (white_scene (1 / 2, 1 / 2)))"
proof -
  let ?u = "example_uniforms\<lparr>phosphorPersistence := 1 / 2\<rparr>"
  let ?v = "example_uniforms\<lparr>brightness := 2\<rparr>"
  have valid: "valid_crt ?u" "valid_crt ?v"
    by (simp_all add: valid_crt_def example_uniforms_def)
  have out_u: "crtPixel example_shapes ?u white_scene (Some black_scene) (1 / 2, 1 / 2)
      = (1 / 20, 1 / 2, 1 / 20)"
    by (simp add: crtPixel_def example_uniforms_def example_shapes_def
        white_scene_def black_scene_def barrelDistort_def onScreen_def scanlines_def
        persistence_def glow_def tint_def vignette_def flicker_def noise_def
        scale_rgb_def add_rgb_def mix_rgb_def clamp_rgb_def clamp01_def)
  have want_u: "scale_rgb (brightness ?u) (tint ?u (white_scene (1 / 2, 1 / 2)))
      = (1 / 10, 1, 1 / 10)"
    by (simp add: example_uniforms_def white_scene_def tint_def scale_rgb_def)
  have out_v: "crtPixel example_shapes ?v white_scene None (1 / 2, 1 / 2) = (1 / 5, 1, 1 / 5)"
    by (simp add: crtPixel_def example_uniforms_def example_shapes_def
        white_scene_def barrelDistort_def onScreen_def scanlines_def
        persistence_def glow_def tint_def vignette_def flicker_def noise_def
        scale_rgb_def add_rgb_def mix_rgb_def clamp_rgb_def clamp01_def)
  have want_v: "scale_rgb (brightness ?v) (tint ?v (white_scene (1 / 2, 1 / 2)))
      = (1 / 5, 2, 1 / 5)"
    by (simp add: example_uniforms_def white_scene_def tint_def scale_rgb_def)
  show ?thesis
    unfolding out_u want_u out_v want_v using valid by simp
qed

text \<open>
  C6, amended: when curvature 0 means no distortion (the bulge is 1 at curvature 0), then
  for every CRTUniforms record with curvature, vignetteStrength, scanlineIntensity,
  glowIntensity, noiseAmount and flickerAmount all 0, and with phosphorPersistence 0 or
  no previous output yet, the output at every pixel of the screen is the input scene
  texture at that pixel with the green tint and the brightness multiply applied, clamped
  to the valid colour range.
\<close>

theorem effects_off_gives_tinted_scaled_scene:
  assumes "\<And>r. bulge sh 0 r = 1" and "onScreen uv"
    and "curvature u = 0" and "vignetteStrength u = 0" and "scanlineIntensity u = 0"
    and "glowIntensity u = 0" and "noiseAmount u = 0" and "flickerAmount u = 0"
    and "phosphorPersistence u = 0 \<or> prev = None"
  shows "crtPixel sh u scene prev uv = clamp_rgb (scale_rgb (brightness u) (tint u (scene uv)))"
proof -
  have p: "barrelDistort sh (curvature u) uv = uv"
    using assms(1,3) by (simp add: no_distortion)
  have s: "scanlines sh u uv (scene uv) = scene uv"
    using assms(5) by (simp add: scanlines_def scale_one)
  have pe: "persistence u prev uv (scene uv) = scene uv"
    using assms(9) by (rule persistence_off)
  have g: "glow sh u scene uv (scene uv) = scene uv"
    using assms(6) by (simp add: glow_def add_zero_scaled)
  have v: "vignette sh u uv c = c" for c
    using assms(4) by (simp add: vignette_def scale_one)
  have f: "flicker sh u c = c" for c
    using assms(8) by (simp add: flicker_def scale_one)
  have n: "noise sh u uv c = c" for c
    using assms(7) by (simp add: noise_def add_zero)
  show ?thesis
    using assms(2) by (simp add: crtPixel_def p s pe g v f n)
qed

theorem effects_off_gives_tinted_scaled_scene_witness:
  "(\<forall>r. bulge example_shapes 0 r = 1) \<and> onScreen (1 / 4, 3 / 4)
   \<and> curvature example_uniforms = 0 \<and> vignetteStrength example_uniforms = 0
   \<and> scanlineIntensity example_uniforms = 0 \<and> glowIntensity example_uniforms = 0
   \<and> noiseAmount example_uniforms = 0 \<and> flickerAmount example_uniforms = 0
   \<and> phosphorPersistence example_uniforms = 0
   \<and> crtPixel example_shapes example_uniforms white_scene (Some black_scene) (1 / 4, 3 / 4)
       = (1 / 10, 1, 1 / 10)"
proof -
  have b: "\<And>r. bulge example_shapes 0 r = 1"
    by (simp add: example_shapes_def)
  have o: "onScreen (1 / 4, 3 / 4)"
    by (simp add: onScreen_def)
  have z: "curvature example_uniforms = 0" "vignetteStrength example_uniforms = 0"
    "scanlineIntensity example_uniforms = 0" "glowIntensity example_uniforms = 0"
    "noiseAmount example_uniforms = 0" "flickerAmount example_uniforms = 0"
    "phosphorPersistence example_uniforms = 0"
    by (simp_all add: example_uniforms_def)
  have pz: "phosphorPersistence example_uniforms = 0 \<or> Some black_scene = None"
    using z(7) by simp
  have e: "clamp_rgb (scale_rgb (brightness example_uniforms)
      (tint example_uniforms (white_scene (1 / 4, 3 / 4)))) = (1 / 10, 1, 1 / 10)"
    by (simp add: example_uniforms_def white_scene_def tint_def scale_rgb_def
        clamp_rgb_def clamp01_def)
  from effects_off_gives_tinted_scaled_scene
    [of example_shapes "(1 / 4, 3 / 4)" example_uniforms "Some black_scene" white_scene,
     OF b o z(1) z(2) z(3) z(4) z(5) z(6) pz]
  show ?thesis
    using b o z e by simp
qed

text \<open>
  C7: for every CRTUniforms record, an output pixel whose screen coordinate is remapped
  outside the unit square by the barrel distortion is pure black, whatever the scene,
  the previous output and the other members of the record are: any second record with
  the same curvature, with any scene and any previous output, gives black there too.
\<close>

theorem offscreen_is_black:
  assumes "\<not> onScreen (barrelDistort sh (curvature u) uv)"
    and "curvature u' = curvature u"
  shows "crtPixel sh u scene prev uv = black
    \<and> crtPixel sh u' scene' prev' uv = black"
  using assms by (simp add: crtPixel_def)

theorem offscreen_is_black_witness:
  "\<not> onScreen (barrelDistort example_shapes
        (curvature (example_uniforms\<lparr>curvature := 1 / 50\<rparr>)) (1, 1))
   \<and> curvature (example_uniforms\<lparr>curvature := 1 / 50, brightness := 2, noiseAmount := 1\<rparr>)
       = curvature (example_uniforms\<lparr>curvature := 1 / 50\<rparr>)
   \<and> crtPixel example_shapes (example_uniforms\<lparr>curvature := 1 / 50\<rparr>)
        white_scene None (1, 1) = black
   \<and> crtPixel example_shapes
        (example_uniforms\<lparr>curvature := 1 / 50, brightness := 2, noiseAmount := 1\<rparr>)
        black_scene (Some white_scene) (1, 1) = black"
proof -
  have off: "\<not> onScreen (barrelDistort example_shapes
        (curvature (example_uniforms\<lparr>curvature := 1 / 50\<rparr>)) (1, 1))"
    by (simp add: onScreen_def barrelDistort_def example_shapes_def example_uniforms_def)
  have same:
    "curvature (example_uniforms\<lparr>curvature := 1 / 50, brightness := 2, noiseAmount := 1\<rparr>)
       = curvature (example_uniforms\<lparr>curvature := 1 / 50\<rparr>)"
    by simp
  from offscreen_is_black [OF off same] off same show ?thesis
    by blast
qed

text \<open>
  C8: for every curvature, and every radial factor, the barrel distortion maps the
  centre of the screen, (1/2, 1/2), to itself.
\<close>

theorem center_is_fixed_point:
  "barrelDistort sh c (1 / 2, 1 / 2) = (1 / 2, 1 / 2)"
  by (simp add: barrelDistort_def)

end
